theory Spec2Isabelle
  imports Complex_Main "HOL-Library.Sublist"
begin

section \<open>The Copilot invoker of spec-kitty\<close>

text \<open>
  A shallow embedding of \<^verbatim>\<open>src/specify_cli/orchestrator/agents/copilot.py\<close>:
  the class \<^verbatim>\<open>CopilotInvoker\<close> with \<^verbatim>\<open>build_command\<close>,
  \<^verbatim>\<open>parse_output\<close> and \<^verbatim>\<open>_extract_files_from_text\<close>.

  A Python \<^verbatim>\<open>str\<close> is modelled as a \<open>string\<close>, a list of 8-bit characters read as the
  code points 0 to 255. The character classes below (\<^verbatim>\<open>str.isspace\<close>, \<^verbatim>\<open>str.lower\<close>, the
  \<^verbatim>\<open>\s\<close> and \<^verbatim>\<open>\w\<close> of the \<^verbatim>\<open>re\<close> module) are those of Python 3 on that range.
\<close>

subsection \<open>String primitives of Python\<close>

text \<open>\<^verbatim>\<open>str.isspace\<close> on one character; \<^verbatim>\<open>str.strip()\<close> and the \<^verbatim>\<open>\s\<close> of a
  \<^verbatim>\<open>str\<close> pattern use the same set: 0x09-0x0D, 0x1C-0x20, 0x85 and 0xA0.\<close>

definition isspace :: "char \<Rightarrow> bool" where
  "isspace c =
     (let n = (of_char c :: nat)
      in (9 \<le> n \<and> n \<le> 13) \<or> (28 \<le> n \<and> n \<le> 32) \<or> n = 133 \<or> n = 160)"

text \<open>\<^verbatim>\<open>str.lower\<close> on one character: A-Z, and the upper-case letters 0xC0-0xD6 and
  0xD8-0xDE of Latin-1, move up by 32 (bit 5, clear on these ranges, is set); every other
  character stays.\<close>

definition lower_char :: "char \<Rightarrow> char" where
  "lower_char c =
     (let n = (of_char c :: nat)
      in if (65 \<le> n \<and> n \<le> 90) \<or> (192 \<le> n \<and> n \<le> 214) \<or> (216 \<le> n \<and> n \<le> 222)
         then (case c of Char b0 b1 b2 b3 b4 b5 b6 b7 \<Rightarrow> Char b0 b1 b2 b3 b4 True b6 b7)
         else c)"

text \<open>The \<^verbatim>\<open>\w\<close> of a \<^verbatim>\<open>str\<close> pattern: an alphanumeric character or the underscore.\<close>

definition isword :: "char \<Rightarrow> bool" where
  "isword c =
     (let n = (of_char c :: nat)
      in (48 \<le> n \<and> n \<le> 57) \<or> (65 \<le> n \<and> n \<le> 90) \<or> n = 95 \<or> (97 \<le> n \<and> n \<le> 122)
         \<or> n = 170 \<or> n = 178 \<or> n = 179 \<or> n = 181 \<or> n = 185 \<or> n = 186
         \<or> (188 \<le> n \<and> n \<le> 190) \<or> (192 \<le> n \<and> n \<le> 214)
         \<or> (216 \<le> n \<and> n \<le> 246) \<or> (248 \<le> n \<and> n \<le> 255))"

text \<open>\<^verbatim>\<open>s.lower()\<close> and \<^verbatim>\<open>s.strip()\<close>.\<close>

definition lower :: "string \<Rightarrow> string" where
  "lower s = map lower_char s"

definition strip :: "string \<Rightarrow> string" where
  "strip s = rev (dropWhile isspace (rev (dropWhile isspace s)))"

text \<open>\<^verbatim>\<open>s.split("\n")\<close>: the pieces between the newlines, empty pieces kept, so that
  the empty string gives one empty piece. \<open>acc\<close> holds the current piece, reversed.\<close>

fun split_acc :: "string \<Rightarrow> string \<Rightarrow> string list" where
  "split_acc acc [] = [rev acc]"
| "split_acc acc (c # cs) =
     (if c = CHR ''\<newline>'' then rev acc # split_acc [] cs else split_acc (c # acc) cs)"

definition split_lines :: "string \<Rightarrow> string list" where
  "split_lines s = split_acc [] s"

text \<open>\<^verbatim>\<open>needle in hay\<close>: \<open>needle\<close> starts at some position of \<open>hay\<close>.\<close>

fun contains :: "string \<Rightarrow> string \<Rightarrow> bool" where
  "contains [] needle = (needle = [])"
| "contains (c # cs) needle = (prefix needle (c # cs) \<or> contains cs needle)"

subsection \<open>The regular expressions of the file extractor\<close>

text \<open>
  The fragment of \<^verbatim>\<open>re\<close> that the two patterns use: literal text (compared without case,
  as \<^verbatim>\<open>re.IGNORECASE\<close> asks), a character class, a class under the greedy \<^verbatim>\<open>+\<close> and
  \<^verbatim>\<open>?\<close>, sequence, alternation and a capturing group.
\<close>

datatype regex =
    Lit string
  | Cls "char \<Rightarrow> bool"
  | Plus "char \<Rightarrow> bool"
  | Opt "char \<Rightarrow> bool"
  | Seq regex regex
  | Alt regex regex
  | Group regex

text \<open>A literal at the head of the input: the rest of the input after it, if it is there.\<close>

fun lit_match :: "string \<Rightarrow> string \<Rightarrow> string option" where
  "lit_match [] s = Some s"
| "lit_match (p # ps) [] = None"
| "lit_match (p # ps) (c # cs) =
     (if lower_char c = lower_char p then lit_match ps cs else None)"

text \<open>The greedy \<^verbatim>\<open>+\<close> on a class: every way to take one or more characters of the
  class, as the input left over, the longest run first.\<close>

fun plus_runs :: "(char \<Rightarrow> bool) \<Rightarrow> string \<Rightarrow> string list" where
  "plus_runs P [] = []"
| "plus_runs P (c # cs) = (if P c then plus_runs P cs @ [cs] else [])"

text \<open>
  The backtracking matcher: \<open>runs r s\<close> lists every way \<open>r\<close> matches at the head of \<open>s\<close>,
  in the order in which backtracking tries them; each is the input left over and the text
  of the group, if the group took part. The match that \<^verbatim>\<open>re\<close> reports is the first.
\<close>

fun runs :: "regex \<Rightarrow> string \<Rightarrow> (string \<times> string option) list" where
  "runs (Lit l) s = (case lit_match l s of None \<Rightarrow> [] | Some rest \<Rightarrow> [(rest, None)])"
| "runs (Cls P) s = (case s of [] \<Rightarrow> [] | c # cs \<Rightarrow> if P c then [(cs, None)] else [])"
| "runs (Plus P) s = map (\<lambda>rest. (rest, None)) (plus_runs P s)"
| "runs (Opt P) s =
     (case s of [] \<Rightarrow> [] | c # cs \<Rightarrow> if P c then [(cs, None)] else []) @ [(s, None)]"
| "runs (Seq a b) s =
     concat (map (\<lambda>(s1, g1).
        map (\<lambda>(s2, g2). (s2, case g2 of None \<Rightarrow> g1 | Some t \<Rightarrow> Some t)) (runs b s1))
       (runs a s))"
| "runs (Alt a b) s = runs a s @ runs b s"
| "runs (Group a) s =
     map (\<lambda>(rest, g). (rest, Some (take (length s - length rest) s))) (runs a s)"

text \<open>
  \<^verbatim>\<open>re.findall\<close> for a pattern with one group: scan from the left; where the pattern
  matches, report the group and go on after the match; where it does not, move on by one
  character. (After a match of no character the scan moves on by one character; the
  patterns below never match the empty string.)
\<close>

fun findall :: "regex \<Rightarrow> string \<Rightarrow> string list" where
  "findall r [] =
     (case runs r [] of [] \<Rightarrow> [] | (rest, g) # _ \<Rightarrow> [case g of None \<Rightarrow> [] | Some t \<Rightarrow> t])"
| "findall r (c # cs) =
     (case runs r (c # cs) of
        [] \<Rightarrow> findall r cs
      | (rest, g) # _ \<Rightarrow>
          (case g of None \<Rightarrow> [] | Some t \<Rightarrow> t) #
          (if length rest < length (c # cs) then findall r rest else findall r cs))"

text \<open>The classes \<^verbatim>\<open>['\"]\<close>, \<^verbatim>\<open>[^\s'\"]\<close> and \<^verbatim>\<open>\.\<close>.\<close>

definition isquote :: "char \<Rightarrow> bool" where
  "isquote c = (c = CHR 0x27 \<or> c = CHR 0x22)"

definition istoken :: "char \<Rightarrow> bool" where
  "istoken c = (\<not> isspace c \<and> \<not> isquote c)"

definition isdot :: "char \<Rightarrow> bool" where
  "isdot c = (c = CHR ''.'')"

text \<open>
  \<^verbatim>\<open>(?:created|modified|updated|wrote|edited)\s+['\"]?([^\s'\"]+\.\w+)['\"]?\<close> and
  \<^verbatim>\<open>(?:writing to|saving)\s+['\"]?([^\s'\"]+\.\w+)['\"]?\<close>
\<close>

definition pattern1 :: regex where
  "pattern1 =
     Seq (Alt (Lit ''created'') (Alt (Lit ''modified'') (Alt (Lit ''updated'')
            (Alt (Lit ''wrote'') (Lit ''edited'')))))
    (Seq (Plus isspace)
    (Seq (Opt isquote)
    (Seq (Group (Seq (Plus istoken) (Seq (Cls isdot) (Plus isword))))
         (Opt isquote))))"

definition pattern2 :: regex where
  "pattern2 =
     Seq (Alt (Lit ''writing to'') (Lit ''saving''))
    (Seq (Plus isspace)
    (Seq (Opt isquote)
    (Seq (Group (Seq (Plus istoken) (Seq (Cls isdot) (Plus isword))))
         (Opt isquote))))"

definition patterns :: "regex list" where
  "patterns = [pattern1, pattern2]"

subsection \<open>The invoker\<close>

text \<open>
  \<^verbatim>\<open>_extract_files_from_text\<close>: the matches of each pattern in turn, then
  \<^verbatim>\<open>list(set(files))\<close>. Python fixes no order for the elements of a set; \<open>remdups\<close>
  gives one of the orders, and the theorems below rely on none.
\<close>

definition extract_files_from_text :: "string \<Rightarrow> string list" where
  "extract_files_from_text text = remdups (concat (map (\<lambda>pattern. findall pattern text) patterns))"

text \<open>\<^verbatim>\<open>InvocationResult\<close>, with the fields that \<^verbatim>\<open>parse_output\<close> passes to it. The
  duration is a Python float that is only handed on: its type is left open.\<close>

record 'd InvocationResult =
  success :: bool
  exit_code :: int
  stdout :: string
  stderr :: string
  duration_seconds :: 'd
  files_modified :: "string list"
  commits_made :: "string list"
  errors :: "string list"
  warnings :: "string list"

text \<open>\<^verbatim>\<open>build_command\<close>.\<close>

definition build_command :: "string \<Rightarrow> 'p \<Rightarrow> string \<Rightarrow> string list" where
  "build_command prompt working_dir role = [''copilot'', ''-p'', prompt, ''--yolo'', ''-s'']"

text \<open>The test of lines 88 and 93: \<^verbatim>\<open>"error" in s.lower() or "failed" in s.lower()\<close>.\<close>

definition error_like :: "string \<Rightarrow> bool" where
  "error_like s = (contains (lower s) ''error'' \<or> contains (lower s) ''failed'')"

text \<open>
  \<^verbatim>\<open>parse_output\<close>. The methods \<^verbatim>\<open>_extract_errors_from_output\<close> and
  \<^verbatim>\<open>_extract_warnings_from_output\<close> are inherited from \<^verbatim>\<open>BaseInvoker\<close>, whose module is
  not among the sources: they are the parameters \<open>extract_errors\<close> and \<open>extract_warnings\<close>,
  functions of \<^verbatim>\<open>stderr\<close> (their first argument is \<^verbatim>\<open>None\<close> at both calls) that return a
  list of strings or raise an exception \<open>'e\<close>. An exception of theirs leaves
  \<^verbatim>\<open>parse_output\<close>, which catches none.
\<close>

definition parse_output ::
  "(string \<Rightarrow> 'e + string list) \<Rightarrow> (string \<Rightarrow> 'e + string list) \<Rightarrow>
   string \<Rightarrow> string \<Rightarrow> int \<Rightarrow> 'd \<Rightarrow> 'e + 'd InvocationResult" where
  "parse_output extract_errors extract_warnings stdout' stderr' exit_code' duration_seconds' =
    (let success' = (exit_code' = 0);
         files_modified' = extract_files_from_text stdout'
     in
     case (if strip stderr' \<noteq> [] then
             (case (if \<not> success' then extract_errors stderr' else Inr []) of
                Inl e \<Rightarrow> Inl e
              | Inr errs \<Rightarrow>
                  (case extract_warnings stderr' of
                     Inl e \<Rightarrow> Inl e
                   | Inr warns \<Rightarrow> Inr (errs, warns)))
           else Inr ([], [])) of
       Inl e \<Rightarrow> Inl e
     | Inr (errs, warns) \<Rightarrow>
         Inr \<lparr> success = success',
               exit_code = exit_code',
               stdout = stdout',
               stderr = stderr',
               duration_seconds = duration_seconds',
               files_modified = files_modified',
               commits_made = [],
               errors =
                 (if \<not> success' \<and> errs = [] then
                    (if error_like stdout' then
                       errs @ take 3 (map strip (filter error_like (split_lines stdout')))
                     else errs)
                  else errs),
               warnings = warns \<rparr>)"

subsection \<open>A concrete base invoker\<close>

text \<open>
  Modelled from the spec: the module \<^verbatim>\<open>specify_cli/orchestrator/agents/base.py\<close>, with
  \<^verbatim>\<open>BaseInvoker._extract_errors_from_output\<close> and
  \<^verbatim>\<open>BaseInvoker._extract_warnings_from_output\<close>, is not among the sources. Section 4.2 of
  the spec describes the error-line extractor (for plain text, any line containing "error"
  or "failed", without case, is a candidate; not capped) and the warning-line extractor
  (the same line scan on a warning vocabulary, not capped; the spec lists no vocabulary, and
  the word "warning" stands for it here). Neither raises. The two serve as the concrete
  extractors of the examples; every general theorem below holds for any pair of extractors.
\<close>

datatype exception = Exception string

definition extract_errors_from_output :: "string \<Rightarrow> exception + string list" where
  "extract_errors_from_output text = Inr (filter error_like (split_lines text))"

definition extract_warnings_from_output :: "string \<Rightarrow> exception + string list" where
  "extract_warnings_from_output text =
     Inr (filter (\<lambda>line. contains (lower line) ''warning'') (split_lines text))"

section \<open>Properties\<close>

lemmas string_defs = strip_def lower_def lower_char_def isspace_def isword_def istoken_def
  isquote_def isdot_def error_like_def split_lines_def

lemmas extractor_defs = extract_files_from_text_def patterns_def pattern1_def pattern2_def

lemmas base_defs = extract_errors_from_output_def extract_warnings_from_output_def

lemma strip_Nil: "strip [] = []"
  by (simp add: strip_def)

subsection \<open>Success follows the exit code\<close>



subsection \<open>A zero exit code and failure words on stdout\<close>

text \<open>
  Claim C2, as stated: with exit code 0 and an "error" or "failed" on \<^verbatim>\<open>stdout\<close>, the
  indicator is surfaced into \<^verbatim>\<open>warnings\<close>, which is then non-empty. The code does not do
  that: \<^verbatim>\<open>stdout\<close> is scanned only under \<^verbatim>\<open>if not success and not errors\<close>, and only into
  \<^verbatim>\<open>errors\<close>. At \<^verbatim>\<open>stdout = "error: build failed"\<close>, an empty \<^verbatim>\<open>stderr\<close> and exit code 0
  the warnings are empty.
\<close>

theorem stdout_indicator_counterexample:
  "contains (lower ''error: build failed'') ''error'' \<and>
   parse_output extract_errors_from_output extract_warnings_from_output
     ''error: build failed'' '''' 0 (0::real)
   = Inr \<lparr> success = True, exit_code = 0, stdout = ''error: build failed'',
           stderr = '''', duration_seconds = 0, files_modified = [],
           commits_made = [], errors = [], warnings = [] \<rparr>"
  by (simp add: parse_output_def string_defs extractor_defs)

text \<open>
  Claim C2, amended: with exit code 0, whatever \<^verbatim>\<open>stdout\<close> contains, \<^verbatim>\<open>success\<close> is true and
  \<^verbatim>\<open>errors\<close> is empty; \<^verbatim>\<open>warnings\<close> comes from \<^verbatim>\<open>stderr\<close> alone: it is what the inherited
  warning extractor returns for \<^verbatim>\<open>stderr\<close> when \<^verbatim>\<open>stderr\<close> has a character that is not
  whitespace, and it is empty otherwise.
\<close>

theorem zero_exit_warnings_from_stderr:
  "ec = 0 \<Longrightarrow> parse_output ee ew so se ec d = Inr r \<Longrightarrow>
     success r \<and> errors r = [] \<and>
     (if strip se = [] then warnings r = [] else ew se = Inr (warnings r))"
  by (auto simp: parse_output_def Let_def split: if_splits sum.splits prod.splits)

theorem zero_exit_warnings_from_stderr_witness:
  "parse_output extract_errors_from_output extract_warnings_from_output
     ''Tests FAILED: 2'' ''Warning: slow network'' 0 (0::real)
   = Inr \<lparr> success = True, exit_code = 0, stdout = ''Tests FAILED: 2'',
           stderr = ''Warning: slow network'', duration_seconds = 0, files_modified = [],
           commits_made = [], errors = [], warnings = [''Warning: slow network''] \<rparr>
   \<and> extract_warnings_from_output ''Warning: slow network'' = Inr [''Warning: slow network'']"
proof -
  have h: "parse_output extract_errors_from_output extract_warnings_from_output
     ''Tests FAILED: 2'' ''Warning: slow network'' 0 (0::real)
   = Inr \<lparr> success = True, exit_code = 0, stdout = ''Tests FAILED: 2'',
           stderr = ''Warning: slow network'', duration_seconds = 0, files_modified = [],
           commits_made = [], errors = [], warnings = [''Warning: slow network''] \<rparr>"
    by (simp add: parse_output_def string_defs extractor_defs base_defs)
  have ne: "strip ''Warning: slow network'' \<noteq> []"
    by (simp add: string_defs)
  show ?thesis using h ne zero_exit_warnings_from_stderr [OF refl h] by simp
qed

subsection \<open>Scenario B\<close>

text \<open>
  Claim C3, as stated: for \<^verbatim>\<open>stdout = "Something went wrong\nFailed to compile\n"\<close>, an
  empty \<^verbatim>\<open>stderr\<close> and exit code 1, \<^verbatim>\<open>errors\<close> has exactly 2 entries, one per line. The
  code keeps a line only when it contains "error" or "failed"; "Something went wrong"
  contains neither, so \<^verbatim>\<open>errors\<close> has one entry.
\<close>

theorem scenario_b_counterexample:
  "parse_output extract_errors_from_output extract_warnings_from_output
     ''Something went wrong\<newline>Failed to compile\<newline>'' '''' 1 (0::real)
   = Inr \<lparr> success = False, exit_code = 1,
           stdout = ''Something went wrong\<newline>Failed to compile\<newline>'', stderr = '''',
           duration_seconds = 0, files_modified = [], commits_made = [],
           errors = [''Failed to compile''], warnings = [] \<rparr>
   \<and> length (errors (projr (parse_output extract_errors_from_output extract_warnings_from_output
     ''Something went wrong\<newline>Failed to compile\<newline>'' '''' 1 (0::real)))) \<noteq> 2"
  by (simp add: parse_output_def string_defs extractor_defs)

text \<open>
  Claim C3, amended: for that input \<^verbatim>\<open>parse_output\<close> returns \<^verbatim>\<open>success == false\<close> and
  \<^verbatim>\<open>errors\<close> with exactly 1 entry, "Failed to compile", the one line of \<^verbatim>\<open>stdout\<close> that
  contains "error" or "failed", stripped of surrounding whitespace. The inherited
  extractors are not called, so this holds for all of them.
\<close>

theorem scenario_b_one_error:
  "parse_output ee ew ''Something went wrong\<newline>Failed to compile\<newline>'' '''' 1 d
   = Inr \<lparr> success = False, exit_code = 1,
           stdout = ''Something went wrong\<newline>Failed to compile\<newline>'', stderr = '''',
           duration_seconds = d, files_modified = [], commits_made = [],
           errors = [''Failed to compile''], warnings = [] \<rparr>"
  by (simp add: parse_output_def string_defs extractor_defs)

subsection \<open>Errors on a non-zero exit code\<close>

text \<open>
  Claim C4, as stated: with a non-zero exit code and a non-empty \<^verbatim>\<open>stderr\<close>, the errors come
  from \<^verbatim>\<open>stderr\<close> alone and \<^verbatim>\<open>stdout\<close> is not scanned. The code tests \<^verbatim>\<open>stderr.strip()\<close>, not
  \<^verbatim>\<open>stderr\<close>: for \<^verbatim>\<open>stderr = " "\<close>, which is not empty, the extractors are not called and
  the error comes from \<^verbatim>\<open>stdout\<close>.
\<close>

theorem blank_stderr_counterexample:
  "'' '' \<noteq> '''' \<and>
   parse_output extract_errors_from_output extract_warnings_from_output
     ''error: disk full'' '' '' 1 (0::real)
   = Inr \<lparr> success = False, exit_code = 1, stdout = ''error: disk full'',
           stderr = '' '', duration_seconds = 0, files_modified = [],
           commits_made = [], errors = [''error: disk full''], warnings = [] \<rparr>"
  by (simp add: parse_output_def string_defs extractor_defs)

text \<open>
  Claim C4, amended: with a non-zero exit code and a \<^verbatim>\<open>stderr\<close> that has a character other
  than whitespace, \<^verbatim>\<open>errors\<close> is what the inherited error extractor returns for \<^verbatim>\<open>stderr\<close>
  whenever that is not empty, and then \<^verbatim>\<open>stdout\<close> is not scanned; only when the extractor
  returns nothing does the scan of \<^verbatim>\<open>stdout\<close> (second guard, \<^verbatim>\<open>not errors\<close>) supply the
  errors.
\<close>

theorem stderr_errors_first:
  assumes "ec \<noteq> 0" and "strip se \<noteq> []" and "parse_output ee ew so se ec d = Inr r"
  shows "\<exists>es. ee se = Inr es \<and>
       errors r = (if es = [] \<and> error_like so
                   then take 3 (map strip (filter error_like (split_lines so))) else es)"
proof (cases "ee se")
  case (Inl e)
  with assms show ?thesis by (simp add: parse_output_def)
next
  case E: (Inr es)
  show ?thesis
  proof (cases "ew se")
    case (Inl e)
    with assms E show ?thesis by (simp add: parse_output_def)
  next
    case W: (Inr ws)
    from assms E W have "errors r =
        (if es = [] then (if error_like so
           then es @ take 3 (map strip (filter error_like (split_lines so))) else es) else es)"
      by (simp add: parse_output_def) (erule subst, simp)
    with E show ?thesis by simp
  qed
qed

theorem stderr_errors_first_witness:
  "(2::int) \<noteq> 0 \<and> strip ''fatal error: boom'' \<noteq> [] \<and>
   parse_output extract_errors_from_output extract_warnings_from_output
     ''error: seen on stdout'' ''fatal error: boom'' 2 (0::real)
   = Inr \<lparr> success = False, exit_code = 2, stdout = ''error: seen on stdout'',
           stderr = ''fatal error: boom'', duration_seconds = 0, files_modified = [],
           commits_made = [], errors = [''fatal error: boom''], warnings = [] \<rparr>
   \<and> extract_errors_from_output ''fatal error: boom'' = Inr [''fatal error: boom'']"
proof -
  have h: "parse_output extract_errors_from_output extract_warnings_from_output
     ''error: seen on stdout'' ''fatal error: boom'' 2 (0::real)
   = Inr \<lparr> success = False, exit_code = 2, stdout = ''error: seen on stdout'',
           stderr = ''fatal error: boom'', duration_seconds = 0, files_modified = [],
           commits_made = [], errors = [''fatal error: boom''], warnings = [] \<rparr>"
    by (simp add: parse_output_def string_defs extractor_defs base_defs)
  have ne: "strip ''fatal error: boom'' \<noteq> []"
    by (simp add: string_defs)
  have ec: "(2::int) \<noteq> 0" by simp
  show ?thesis using h ne stderr_errors_first [OF ec ne h]
    by (simp add: string_defs base_defs)
qed

text \<open>
  Claim C5: with a non-zero exit code and an empty \<^verbatim>\<open>stderr\<close>, \<^verbatim>\<open>parse_output\<close> returns a
  result whose \<^verbatim>\<open>errors\<close> has at most 3 entries, each of them a line of \<^verbatim>\<open>stdout\<close> that
  contains "error" or "failed" without regard to case, stripped of leading and trailing
  whitespace.
\<close>

theorem stdout_errors_capped:
  assumes "ec \<noteq> 0"
  shows "\<exists>r. parse_output ee ew so '''' ec d = Inr r \<and> length (errors r) \<le> 3 \<and>
           (\<forall>e \<in> set (errors r). \<exists>line \<in> set (split_lines so).
              (contains (lower line) ''error'' \<or> contains (lower line) ''failed'') \<and>
              e = strip line)"
proof -
  let ?found = "take 3 (map strip (filter error_like (split_lines so)))"
  have len: "length ?found \<le> 3" by simp
  have mem: "\<exists>line \<in> set (split_lines so).
      (contains (lower line) ''error'' \<or> contains (lower line) ''failed'') \<and> e = strip line"
    if "e \<in> set ?found" for e
  proof -
    from that have "e \<in> set (map strip (filter error_like (split_lines so)))"
      by (rule in_set_takeD)
    then obtain line where "line \<in> set (split_lines so)" "error_like line" "e = strip line"
      by auto
    then show ?thesis unfolding error_like_def by blast
  qed
  show ?thesis
  proof (cases "error_like so")
    case True
    with assms have "parse_output ee ew so '''' ec d = Inr \<lparr> success = False, exit_code = ec,
           stdout = so, stderr = '''', duration_seconds = d,
           files_modified = extract_files_from_text so, commits_made = [],
           errors = ?found, warnings = [] \<rparr>"
      by (simp add: parse_output_def strip_Nil)
    with len mem show ?thesis by auto
  next
    case False
    with assms have "parse_output ee ew so '''' ec d = Inr \<lparr> success = False, exit_code = ec,
           stdout = so, stderr = '''', duration_seconds = d,
           files_modified = extract_files_from_text so, commits_made = [],
           errors = [], warnings = [] \<rparr>"
      by (simp add: parse_output_def strip_Nil)
    then show ?thesis by auto
  qed
qed

theorem stdout_errors_capped_witness:
  "(1::int) \<noteq> 0 \<and>
   parse_output extract_errors_from_output extract_warnings_from_output
     ''error 1\<newline>  Build FAILED \<newline>all fine\<newline>Error 3\<newline>error 4'' '''' 1 (0::real)
   = Inr \<lparr> success = False, exit_code = 1,
           stdout = ''error 1\<newline>  Build FAILED \<newline>all fine\<newline>Error 3\<newline>error 4'',
           stderr = '''', duration_seconds = 0, files_modified = [],
           commits_made = [], errors = [''error 1'', ''Build FAILED'', ''Error 3''],
           warnings = [] \<rparr>"
proof -
  have ec: "(1::int) \<noteq> 0" by simp
  show ?thesis
    using ec stdout_errors_capped [OF ec, of extract_errors_from_output
        extract_warnings_from_output
        "''error 1\<newline>  Build FAILED \<newline>all fine\<newline>Error 3\<newline>error 4''" "0::real"]
    by (simp add: parse_output_def string_defs extractor_defs)
qed

subsection \<open>No exception\<close>





subsection \<open>The file extractor\<close>

text \<open>
  Claim C7: for every text the list that \<^verbatim>\<open>_extract_files_from_text\<close> returns has no
  duplicate, also when two verb patterns match the same file; \<^verbatim>\<open>files_modified\<close> of the
  result of \<^verbatim>\<open>parse_output\<close> is that list for \<^verbatim>\<open>stdout\<close>, so it has none either.
\<close>

theorem files_distinct:
  "distinct (extract_files_from_text text) \<and>
   (\<forall>r. parse_output ee ew text se ec d = Inr r \<longrightarrow>
      files_modified r = extract_files_from_text text \<and> distinct (files_modified r))"
  by (auto simp: parse_output_def extract_files_from_text_def Let_def
           split: if_splits sum.splits prod.splits)

theorem files_distinct_witness:
  "findall pattern1 ''Created a.py\<newline>saving a.py'' = [''a.py''] \<and>
   findall pattern2 ''Created a.py\<newline>saving a.py'' = [''a.py''] \<and>
   parse_output extract_errors_from_output extract_warnings_from_output
     ''Created a.py\<newline>saving a.py'' '''' 0 (0::real)
   = Inr \<lparr> success = True, exit_code = 0, stdout = ''Created a.py\<newline>saving a.py'',
           stderr = '''', duration_seconds = 0, files_modified = [''a.py''],
           commits_made = [], errors = [], warnings = [] \<rparr>"
proof -
  have h: "parse_output extract_errors_from_output extract_warnings_from_output
     ''Created a.py\<newline>saving a.py'' '''' 0 (0::real)
   = Inr \<lparr> success = True, exit_code = 0, stdout = ''Created a.py\<newline>saving a.py'',
           stderr = '''', duration_seconds = 0, files_modified = [''a.py''],
           commits_made = [], errors = [], warnings = [] \<rparr>"
    by (simp add: parse_output_def string_defs extractor_defs)
  have f: "findall pattern1 ''Created a.py\<newline>saving a.py'' = [''a.py''] \<and>
           findall pattern2 ''Created a.py\<newline>saving a.py'' = [''a.py'']"
    by (simp add: string_defs extractor_defs)
  from files_distinct [of "''Created a.py\<newline>saving a.py''" extract_errors_from_output
       extract_warnings_from_output "''''" 0 "0::real"] h
  have "distinct (files_modified \<lparr> success = True, exit_code = 0,
           stdout = ''Created a.py\<newline>saving a.py'',
           stderr = '''', duration_seconds = (0::real), files_modified = [''a.py''],
           commits_made = [], errors = [], warnings = [] \<rparr>)"
    by blast
  with h f show ?thesis by simp
qed

lemma lit_match_prefix: "lit_match l s = Some rest \<Longrightarrow> prefix (lower l) (lower s)"
  by (induction l s rule: lit_match.induct) (auto simp: lower_def split: if_splits)

lemma lit_match_None: "\<not> prefix (lower l) (lower s) \<Longrightarrow> lit_match l s = None"
  using lit_match_prefix by (cases "lit_match l s") auto

lemma runs_pattern1_none:
  assumes "\<forall>v \<in> set [''created'', ''modified'', ''updated'', ''wrote'', ''edited''].
             \<not> prefix v (lower s)"
  shows "runs pattern1 s = []"
proof -
  have "lit_match ''created'' s = None" "lit_match ''modified'' s = None"
    "lit_match ''updated'' s = None" "lit_match ''wrote'' s = None"
    "lit_match ''edited'' s = None"
    using assms by (auto intro!: lit_match_None simp: lower_def lower_char_def)
  then show ?thesis by (simp add: pattern1_def)
qed

lemma runs_pattern2_none:
  assumes "\<forall>v \<in> set [''writing to'', ''saving'']. \<not> prefix v (lower s)"
  shows "runs pattern2 s = []"
proof -
  have "lit_match ''writing to'' s = None" "lit_match ''saving'' s = None"
    using assms by (auto intro!: lit_match_None simp: lower_def lower_char_def)
  then show ?thesis by (simp add: pattern2_def)
qed

lemma findall_none:
  assumes "\<And>t. \<forall>v \<in> set vs. \<not> prefix v (lower t) \<Longrightarrow> runs r t = []"
    and "\<forall>v \<in> set vs. v \<noteq> []"
  shows "\<forall>v \<in> set vs. \<not> contains (lower s) v \<Longrightarrow> findall r s = []"
proof (induction s)
  case Nil
  then have "\<forall>v \<in> set vs. \<not> prefix v (lower [])"
    using assms(2) by (auto simp: lower_def)
  then have "runs r [] = []" by (rule assms(1))
  then show ?case by simp
next
  case (Cons c cs)
  then have here: "\<forall>v \<in> set vs. \<not> prefix v (lower (c # cs))"
    and later: "\<forall>v \<in> set vs. \<not> contains (lower cs) v"
    by (auto simp: lower_def)
  from here have "runs r (c # cs) = []" by (rule assms(1))
  moreover from later have "findall r cs = []" by (rule Cons.IH)
  ultimately show ?case by simp
qed

text \<open>
  Claim C8: a text with "creating file notes.txt" and no file-touching phrase, that is, a
  text in which none of the recognised verbs created, modified, updated, wrote, edited,
  "writing to" and saving occurs (without regard to case), gives the empty result:
  "creating" is not "created".
\<close>

theorem no_verb_no_files:
  assumes "\<forall>v \<in> set [''created'', ''modified'', ''updated'', ''wrote'', ''edited'',
                       ''writing to'', ''saving'']. \<not> contains (lower text) v"
  shows "extract_files_from_text text = []"
proof -
  have "findall pattern1 text = []"
    by (rule findall_none
          [where vs = "[''created'', ''modified'', ''updated'', ''wrote'', ''edited'']"])
       (use assms runs_pattern1_none in auto)
  moreover have "findall pattern2 text = []"
    by (rule findall_none [where vs = "[''writing to'', ''saving'']"])
       (use assms runs_pattern2_none in auto)
  ultimately show ?thesis by (simp add: extract_files_from_text_def patterns_def)
qed

theorem no_verb_no_files_witness:
  "\<not> contains (lower ''creating file notes.txt'') ''created'' \<and>
   \<not> contains (lower ''creating file notes.txt'') ''modified'' \<and>
   \<not> contains (lower ''creating file notes.txt'') ''updated'' \<and>
   \<not> contains (lower ''creating file notes.txt'') ''wrote'' \<and>
   \<not> contains (lower ''creating file notes.txt'') ''edited'' \<and>
   \<not> contains (lower ''creating file notes.txt'') ''writing to'' \<and>
   \<not> contains (lower ''creating file notes.txt'') ''saving'' \<and>
   extract_files_from_text ''creating file notes.txt'' = []"
  using no_verb_no_files [of "''creating file notes.txt''"]
  by (simp add: lower_def lower_char_def)

subsection \<open>The command line and the commits\<close>

text \<open>
  Claim C9: for every prompt, working directory and role, \<^verbatim>\<open>build_command\<close> returns the
  five tokens \<^verbatim>\<open>["copilot", "-p", prompt, "--yolo", "-s"]\<close>; the result depends on the
  prompt alone, so two working directories and two roles give the same vector.
\<close>

theorem build_command_vector:
  "build_command prompt working_dir role = [''copilot'', ''-p'', prompt, ''--yolo'', ''-s'']
   \<and> build_command prompt working_dir role = build_command prompt working_dir' role'"
  by (simp add: build_command_def)

text \<open>
  Claim C10: the result that \<^verbatim>\<open>parse_output\<close> returns has an empty \<^verbatim>\<open>commits_made\<close>,
  whatever commit the output text mentions.
\<close>

theorem parse_output_commits_empty:
  "parse_output ee ew so se ec d = Inr r \<Longrightarrow> commits_made r = []"
  by (auto simp: parse_output_def Let_def split: if_splits sum.splits prod.splits)

theorem parse_output_commits_empty_witness:
  "parse_output extract_errors_from_output extract_warnings_from_output
     ''[main 3f2a1bc] fix parser'' '''' 0 (0::real)
   = Inr \<lparr> success = True, exit_code = 0, stdout = ''[main 3f2a1bc] fix parser'',
           stderr = '''', duration_seconds = 0, files_modified = [],
           commits_made = [], errors = [], warnings = [] \<rparr>"
proof -
  have h: "parse_output extract_errors_from_output extract_warnings_from_output
     ''[main 3f2a1bc] fix parser'' '''' 0 (0::real)
   = Inr \<lparr> success = True, exit_code = 0, stdout = ''[main 3f2a1bc] fix parser'',
           stderr = '''', duration_seconds = 0, files_modified = [],
           commits_made = [], errors = [], warnings = [] \<rparr>"
    by (simp add: parse_output_def string_defs extractor_defs)
  show ?thesis using h parse_output_commits_empty [OF h] by simp
qed

end
